theory Spec2Isabelle
  imports Main
begin

unbundle bit_operations_syntax

section \<open>Constant tables of mitsubishi.py\<close>

text \<open>
  The Python classes \<open>PowerMode\<close>, \<open>ClimateMode\<close>, ... are namespaces of integer
  constants. Each constant is embedded under the name \<open>Class_Member\<close> with the literal
  of the source (not the value of the comment beside it). Python integers are unbounded,
  so the type is \<open>int\<close>; \<open>OR\<close> on \<open>int\<close> is Python's \<open>|\<close>.
\<close>

definition PowerMode_PowerOff :: int where "PowerMode_PowerOff = 0b00000000"
definition PowerMode_PowerOn :: int where "PowerMode_PowerOn = 0b00100000"

definition ClimateMode_Hot :: int where "ClimateMode_Hot = 0b00001000"
definition ClimateMode_Cold :: int where "ClimateMode_Cold = 0b00011000"
definition ClimateMode_Dry :: int where "ClimateMode_Dry = 0b00010000"
definition ClimateMode_Auto :: int where "ClimateMode_Auto = 0b00100000"

definition ClimateMode_Hot2 :: int where "ClimateMode_Hot2 = 0b00001000"
definition ClimateMode_Cold2 :: int where "ClimateMode_Cold2 = 0b00011000"
definition ClimateMode_Dry2 :: int where "ClimateMode_Dry2 = 0b00010000"
definition ClimateMode_Auto2 :: int where "ClimateMode_Auto2 = 0b00100000"

text \<open>
  \<open>ClimateMode.climate2\<close>: a chain of four \<open>if ... return\<close>; when none matches the
  Python function falls off its end and returns \<open>None\<close>.
\<close>

definition climate2 :: "int \<Rightarrow> int option" where
  "climate2 climate_mode =
     (if climate_mode = ClimateMode_Hot then Some ClimateMode_Hot2
      else if climate_mode = ClimateMode_Cold then Some ClimateMode_Cold2
      else if climate_mode = ClimateMode_Dry then Some ClimateMode_Dry2
      else if climate_mode = ClimateMode_Auto then Some ClimateMode_Auto2
      else None)"

definition ISeeMode_NotAvailable :: int where "ISeeMode_NotAvailable = 0b00000000"
definition ISeeMode_ISeeOff :: int where "ISeeMode_ISeeOff = 0b00000000"
definition ISeeMode_ISeeOn :: int where "ISeeMode_ISeeOn = 0b01000000"

definition VanneHorizontalMode_NotAvailable :: int where
  "VanneHorizontalMode_NotAvailable = 0b00000000"
definition VanneHorizontalMode_LeftEnd :: int where "VanneHorizontalMode_LeftEnd = 0b01000000"
definition VanneHorizontalMode_Left :: int where "VanneHorizontalMode_Left = 0b01001000"
definition VanneHorizontalMode_Middle :: int where "VanneHorizontalMode_Middle = 0b01010000"
definition VanneHorizontalMode_Right :: int where "VanneHorizontalMode_Right = 0b01011000"
definition VanneHorizontalMode_RightEnd :: int where "VanneHorizontalMode_RightEnd = 0b01100000"
definition VanneHorizontalMode_Swing :: int where "VanneHorizontalMode_Swing = 0b01101000"

definition FanMode_Speed1 :: int where "FanMode_Speed1 = 0b00000001"
definition FanMode_Speed2 :: int where "FanMode_Speed2 = 0b00000010"
definition FanMode_Speed3 :: int where "FanMode_Speed3 = 0b00000011"
definition FanMode_Speed4 :: int where "FanMode_Speed4 = 0b00000100"
definition FanMode_Auto :: int where "FanMode_Auto = 0b10000000"
definition FanMode_Silent :: int where "FanMode_Silent = 0b00000101"

definition VanneVerticalMode_Auto :: int where "VanneVerticalMode_Auto = 0b01000000"
definition VanneVerticalMode_WvH1 :: int where "VanneVerticalMode_WvH1 = 0b01001000"
definition VanneVerticalMode_WvH2 :: int where "VanneVerticalMode_WvH2 = 0b01010000"
definition VanneVerticalMode_WvH3 :: int where "VanneVerticalMode_WvH3 = 0b01011000"
definition VanneVerticalMode_WvH4 :: int where "VanneVerticalMode_WvH4 = 0b01100000"
definition VanneVerticalMode_WvH5 :: int where "VanneVerticalMode_WvH5 = 0b01101000"
definition VanneVerticalMode_Swing :: int where "VanneVerticalMode_Swing = 0b01111000"

definition TimeControlMode_NoTimeControl :: int where
  "TimeControlMode_NoTimeControl = 0b00000000"
definition TimeControlMode_ControlStart :: int where
  "TimeControlMode_ControlStart = 0b00000000"
definition TimeControlMode_ControlEnd :: int where
  "TimeControlMode_ControlEnd = 0b00000000"
definition TimeControlMode_ControlBoth :: int where
  "TimeControlMode_ControlBoth = 0b00000000"

definition AreaMode_NotAvailable :: int where "AreaMode_NotAvailable = 0b00000000"
definition AreaMode_NotSet :: int where "AreaMode_NotSet = 0b00000000"
definition AreaMode_Left :: int where "AreaMode_Left = 0b00000000"
definition AreaMode_Right :: int where "AreaMode_Right = 0b00000000"
definition AreaMode_Full :: int where "AreaMode_Full = 0b00000000"

definition Delay_HdrMark :: int where "Delay_HdrMark = 3400"
definition Delay_HdrSpace :: int where "Delay_HdrSpace = 1750"
definition Delay_BitMark :: int where "Delay_BitMark = 450"
definition Delay_OneSpace :: int where "Delay_OneSpace = 1300"
definition Delay_ZeroSpace :: int where "Delay_ZeroSpace = 420"
definition Delay_RptMark :: int where "Delay_RptMark = 440"
definition Delay_RptSpace :: int where "Delay_RptSpace = 17100"

definition Index_Power :: nat where "Index_Power = 5"
definition Index_ClimateAndISee :: nat where "Index_ClimateAndISee = 6"
definition Index_Temperature :: nat where "Index_Temperature = 7"
definition Index_ClimateAndHorizontalVanne :: nat where "Index_ClimateAndHorizontalVanne = 8"
definition Index_FanAndVerticalVanne :: nat where "Index_FanAndVerticalVanne = 9"
definition Index_Clock :: nat where "Index_Clock = 10"
definition Index_EndTime :: nat where "Index_EndTime = 11"
definition Index_StartTime :: nat where "Index_StartTime = 12"
definition Index_TimeControlAndArea :: nat where "Index_TimeControlAndArea = 13"
definition Index_CRC :: nat where "Index_CRC = 17"

definition Constants_Frequency :: int where "Constants_Frequency = 38000"
definition Constants_MinTemp :: int where "Constants_MinTemp = 16"
definition Constants_MaxTemp :: int where "Constants_MaxTemp = 31"
definition Constants_MaxMask :: int where "Constants_MaxMask = 0xFF"
definition Constants_NbBytes :: nat where "Constants_NbBytes = 18"
definition Constants_NbPackets :: nat where "Constants_NbPackets = 2"

section \<open>Frame construction in \<open>Mitsubishi.__send_command\<close>\<close>

text \<open>
  A time of day as \<open>__send_command\<close> reads it: the \<open>hour\<close> and \<open>minute\<close> attributes of
  \<open>datetime.today()\<close> and of the optional \<open>start_time\<close> and \<open>end_time\<close> arguments.
  The \<open>datetime\<close> type keeps \<open>0 \<le> hour < 24\<close> and \<open>0 \<le> minute < 60\<close>; the record does
  not, and a theorem that needs the range assumes it.
\<close>

record time_of_day =
  hour :: int
  minute :: int

text \<open>
  \<open>None | vanne_horizontal_mode\<close> raises \<open>TypeError\<close>: the only way the body of
  \<open>__send_command\<close> raises on integer arguments.
\<close>

datatype error = TypeError

text \<open>The list literal bound to \<open>data\<close> at the start of every call.\<close>

definition template :: "int list" where
  "template = [0x23, 0xCB, 0x26, 0x01, 0x00, 0x20,
               0x08, 0x06, 0x30, 0x45, 0x67, 0x00,
               0x00, 0x00, 0x00, 0x00, 0x00, 0x1F]"

text \<open>
  The \<open>if/elif\<close> chain that chooses \<open>time_control\<close> from the presence of \<open>end_time\<close> and
  \<open>start_time\<close>.
\<close>

definition time_control :: "time_of_day option \<Rightarrow> time_of_day option \<Rightarrow> int" where
  "time_control start_time end_time =
     (if end_time \<noteq> None \<and> start_time \<noteq> None then TimeControlMode_ControlBoth
      else if end_time \<noteq> None then TimeControlMode_ControlEnd
      else if start_time \<noteq> None then TimeControlMode_ControlStart
      else TimeControlMode_NoTimeControl)"

text \<open>
  The statements of \<open>__send_command\<close> from the list literal to the assignment of the CRC,
  in the order of the source. \<open>now\<close> is the value of \<open>datetime.today()\<close>. The result is the
  list \<open>data\<close> as it is handed to \<open>sender.send_data\<close>, or the exception raised on the way.
  \<open>data[:-1]\<close> is \<open>butlast data\<close>; Python's \<open>//\<close> and \<open>%\<close> are \<open>div\<close> and \<open>mod\<close> on \<open>int\<close>.
\<close>

definition send_command_frame ::
  "int \<Rightarrow> int \<Rightarrow> int \<Rightarrow> int \<Rightarrow> int \<Rightarrow> int \<Rightarrow> int \<Rightarrow> time_of_day option \<Rightarrow> time_of_day option
     \<Rightarrow> int \<Rightarrow> time_of_day \<Rightarrow> error + int list" where
  "send_command_frame climate_mode temperature fan_mode vanne_vertical_mode
       vanne_horizontal_mode isee_mode area_mode start_time end_time power_mode now =
     (let data = template;
          data = data[Index_Power := power_mode];
          data = data[Index_ClimateAndISee := climate_mode OR isee_mode];
          data = data[Index_Temperature :=
                   max Constants_MinTemp (min Constants_MaxTemp temperature) - 16]
      in case climate2 climate_mode of
           None \<Rightarrow> Inl TypeError
         | Some c2 \<Rightarrow>
            (let data = data[Index_ClimateAndHorizontalVanne := c2 OR vanne_horizontal_mode];
                 data = data[Index_FanAndVerticalVanne := fan_mode OR vanne_vertical_mode];
                 data = data[Index_Clock := hour now * (minute now div 10)];
                 data = data[Index_EndTime :=
                          (case end_time of None \<Rightarrow> 0
                           | Some e \<Rightarrow> hour e * (minute e div 10))];
                 data = data[Index_StartTime :=
                          (case start_time of None \<Rightarrow> 0
                           | Some s \<Rightarrow> hour s * (minute s div 10))];
                 data = data[Index_TimeControlAndArea :=
                          time_control start_time end_time OR area_mode];
                 data = data[Index_CRC := sum_list (butlast data) mod (Constants_MaxMask + 1)]
             in Inr data))"

section \<open>The whole of \<open>__send_command\<close>, \<open>power_off\<close> and \<open>send_command\<close>\<close>

text \<open>
  The dictionary of durations with which \<open>__send_command\<close> constructs its
  \<open>ir_sender.IrSender\<close> (protocol \<open>"NEC"\<close>), one field for each key.
\<close>

record protocol_config =
  leading_pulse_duration :: int
  leading_gap_duration :: int
  one_pulse_duration :: int
  one_gap_duration :: int
  zero_pulse_duration :: int
  zero_gap_duration :: int
  trailing_pulse_duration :: int
  trailing_gap_duration :: int

definition nec_config :: protocol_config where
  "nec_config =
     \<lparr>leading_pulse_duration = Delay_HdrMark,
      leading_gap_duration = Delay_HdrSpace,
      one_pulse_duration = Delay_BitMark,
      one_gap_duration = Delay_OneSpace,
      zero_pulse_duration = Delay_BitMark,
      zero_gap_duration = Delay_ZeroSpace,
      trailing_pulse_duration = Delay_RptMark,
      trailing_gap_duration = Delay_RptSpace\<rparr>"

text \<open>
  The transmitter is an external collaborator. Its state is the list of the calls
  \<open>IrSender(pin, "NEC", config, log_level).send_data(data, max_mask, flag, nb_packets)\<close>
  it has received so far, oldest first.
\<close>

datatype send_call = SendData protocol_config "int list" int bool nat

text \<open>
  \<open>__send_command\<close> as a whole: the frame is built and then handed to the transmitter
  with \<open>sender.send_data(data, Constants.MaxMask, True, Constants.NbPackets)\<close>. When the
  construction raises, the exception leaves the function before \<open>send_data\<close> is reached
  and the transmitter has received nothing new.
\<close>

definition send_command_priv ::
  "int \<Rightarrow> int \<Rightarrow> int \<Rightarrow> int \<Rightarrow> int \<Rightarrow> int \<Rightarrow> int \<Rightarrow> time_of_day option \<Rightarrow> time_of_day option
     \<Rightarrow> int \<Rightarrow> time_of_day \<Rightarrow> send_call list \<Rightarrow> (error + unit) \<times> send_call list" where
  "send_command_priv climate_mode temperature fan_mode vanne_vertical_mode
       vanne_horizontal_mode isee_mode area_mode start_time end_time power_mode now sent =
     (case send_command_frame climate_mode temperature fan_mode vanne_vertical_mode
             vanne_horizontal_mode isee_mode area_mode start_time end_time power_mode now of
        Inl e \<Rightarrow> (Inl e, sent)
      | Inr data \<Rightarrow>
          (Inr (),
           sent @ [SendData nec_config data Constants_MaxMask True Constants_NbPackets]))"

definition power_off :: "time_of_day \<Rightarrow> send_call list \<Rightarrow> (error + unit) \<times> send_call list" where
  "power_off now sent =
     send_command_priv
       ClimateMode_Auto
       21
       FanMode_Auto
       VanneVerticalMode_Auto
       VanneHorizontalMode_Swing
       ISeeMode_NotAvailable
       AreaMode_NotAvailable
       None
       None
       PowerMode_PowerOff now sent"

text \<open>
  \<open>send_command\<close> with every argument given; the defaults of its signature are
  \<open>ClimateMode.Auto\<close>, \<open>21\<close>, \<open>FanMode.Auto\<close>, \<open>VanneVerticalMode.Auto\<close>,
  \<open>VanneHorizontalMode.NotAvailable\<close>, \<open>ISeeMode.NotAvailable\<close>, \<open>AreaMode.NotAvailable\<close>,
  \<open>None\<close> and \<open>None\<close>.
\<close>

definition send_command ::
  "int \<Rightarrow> int \<Rightarrow> int \<Rightarrow> int \<Rightarrow> int \<Rightarrow> int \<Rightarrow> int \<Rightarrow> time_of_day option \<Rightarrow> time_of_day option
     \<Rightarrow> time_of_day \<Rightarrow> send_call list \<Rightarrow> (error + unit) \<times> send_call list" where
  "send_command climate_mode temperature fan_mode vanne_vertical_mode
       vanne_horizontal_mode isee_mode area_mode start_time end_time now sent =
     send_command_priv
       climate_mode
       temperature
       fan_mode
       vanne_vertical_mode
       vanne_horizontal_mode
       isee_mode
       area_mode
       start_time
       end_time
       PowerMode_PowerOn now sent"

section \<open>\<open>__send_command\<close> on a store of list objects\<close>

text \<open>
  In Python a list is an object and the variable \<open>data\<close> holds a reference to it:
  \<open>data[i] = v\<close> changes the object in place, and \<open>sender.send_data(data, ...)\<close> hands over
  the reference, not a copy. Whether two invocations can disturb each other depends on
  which object each of them writes to, so this section embeds \<open>__send_command\<close> once more
  with the objects made explicit. The store is the list of the list objects created so
  far, and a reference is the position of its object in the store.
\<close>

type_synonym ref = nat

type_synonym store = "int list list"

text \<open>
  A list display \<open>[e1, ..., en]\<close> creates a new object each time it is evaluated; its
  reference is one that no object of the store has yet.
\<close>

definition list_display :: "int list \<Rightarrow> store \<Rightarrow> ref \<times> store" where
  "list_display xs h = (length h, h @ [xs])"

text \<open>
  The assignment \<open>data[i] = v\<close> replaces element \<open>i\<close> of the object that \<open>data\<close> refers to.
  (The object of \<open>__send_command\<close> has 18 elements and every index it assigns is a
  constant below 18, so the \<open>IndexError\<close> branch of Python is never taken.)
\<close>

definition list_setitem :: "ref \<Rightarrow> nat \<Rightarrow> int \<Rightarrow> store \<Rightarrow> store" where
  "list_setitem r i v h = h[r := (h ! r)[i := v]]"

text \<open>A call of \<open>send_data\<close> as the transmitter receives it: with a reference to the list.\<close>

datatype send_ref = SendDataRef protocol_config ref int bool nat

text \<open>
  The body of \<open>__send_command\<close>, statement by statement, on a state made of the store and
  of the calls the transmitter has received. The only objects the body names are the one
  its own list display creates and the integer constants of the classes, which no
  statement of the module assigns; there is no module-level list.
\<close>

definition send_command_store ::
  "int \<Rightarrow> int \<Rightarrow> int \<Rightarrow> int \<Rightarrow> int \<Rightarrow> int \<Rightarrow> int \<Rightarrow> time_of_day option \<Rightarrow> time_of_day option
     \<Rightarrow> int \<Rightarrow> time_of_day \<Rightarrow> store \<times> send_ref list
     \<Rightarrow> (error + unit) \<times> store \<times> send_ref list" where
  "send_command_store climate_mode temperature fan_mode vanne_vertical_mode
       vanne_horizontal_mode isee_mode area_mode start_time end_time power_mode now st =
     (case st of (h, sent) \<Rightarrow>
      (case list_display [0x23, 0xCB, 0x26, 0x01, 0x00, 0x20,
                          0x08, 0x06, 0x30, 0x45, 0x67, 0x00,
                          0x00, 0x00, 0x00, 0x00, 0x00, 0x1F] h of (data, h) \<Rightarrow>
       (let h = list_setitem data Index_Power power_mode h;
            h = list_setitem data Index_ClimateAndISee (climate_mode OR isee_mode) h;
            h = list_setitem data Index_Temperature
                  (max Constants_MinTemp (min Constants_MaxTemp temperature) - 16) h
        in case climate2 climate_mode of
             None \<Rightarrow> (Inl TypeError, h, sent)
           | Some c2 \<Rightarrow>
              (let h = list_setitem data Index_ClimateAndHorizontalVanne
                         (c2 OR vanne_horizontal_mode) h;
                   h = list_setitem data Index_FanAndVerticalVanne
                         (fan_mode OR vanne_vertical_mode) h;
                   h = list_setitem data Index_Clock (hour now * (minute now div 10)) h;
                   h = list_setitem data Index_EndTime
                         (case end_time of None \<Rightarrow> 0
                          | Some e \<Rightarrow> hour e * (minute e div 10)) h;
                   h = list_setitem data Index_StartTime
                         (case start_time of None \<Rightarrow> 0
                          | Some s \<Rightarrow> hour s * (minute s div 10)) h;
                   h = list_setitem data Index_TimeControlAndArea
                         (time_control start_time end_time OR area_mode) h;
                   h = list_setitem data Index_CRC
                         (sum_list (butlast (h ! data)) mod (Constants_MaxMask + 1)) h
               in (Inr (), h,
                   sent @ [SendDataRef nec_config data Constants_MaxMask True
                             Constants_NbPackets])))))"

section \<open>Unfolding rules\<close>

lemmas enum_defs =
  PowerMode_PowerOff_def PowerMode_PowerOn_def
  ClimateMode_Hot_def ClimateMode_Cold_def ClimateMode_Dry_def ClimateMode_Auto_def
  ClimateMode_Hot2_def ClimateMode_Cold2_def ClimateMode_Dry2_def ClimateMode_Auto2_def
  ISeeMode_NotAvailable_def ISeeMode_ISeeOff_def ISeeMode_ISeeOn_def
  VanneHorizontalMode_NotAvailable_def VanneHorizontalMode_LeftEnd_def
  VanneHorizontalMode_Left_def VanneHorizontalMode_Middle_def VanneHorizontalMode_Right_def
  VanneHorizontalMode_RightEnd_def VanneHorizontalMode_Swing_def
  FanMode_Speed1_def FanMode_Speed2_def FanMode_Speed3_def FanMode_Speed4_def
  FanMode_Auto_def FanMode_Silent_def
  VanneVerticalMode_Auto_def VanneVerticalMode_WvH1_def VanneVerticalMode_WvH2_def
  VanneVerticalMode_WvH3_def VanneVerticalMode_WvH4_def VanneVerticalMode_WvH5_def
  VanneVerticalMode_Swing_def
  TimeControlMode_NoTimeControl_def TimeControlMode_ControlStart_def
  TimeControlMode_ControlEnd_def TimeControlMode_ControlBoth_def
  AreaMode_NotAvailable_def AreaMode_NotSet_def AreaMode_Left_def AreaMode_Right_def
  AreaMode_Full_def

lemmas index_defs =
  Index_Power_def Index_ClimateAndISee_def Index_Temperature_def
  Index_ClimateAndHorizontalVanne_def Index_FanAndVerticalVanne_def Index_Clock_def
  Index_EndTime_def Index_StartTime_def Index_TimeControlAndArea_def Index_CRC_def

section \<open>The frame in closed form\<close>

lemma climate2_Some_iff:
  "(\<exists>c2. climate2 climate_mode = Some c2) \<longleftrightarrow>
     climate_mode \<in> {ClimateMode_Hot, ClimateMode_Cold, ClimateMode_Dry, ClimateMode_Auto}"
  by (auto simp: climate2_def)

lemma send_command_frame_Some:
  assumes "climate2 climate_mode = Some c2"
  shows "send_command_frame climate_mode temperature fan_mode vanne_vertical_mode
           vanne_horizontal_mode isee_mode area_mode start_time end_time power_mode now =
         (let body =
             [0x23, 0xCB, 0x26, 0x01, 0x00, power_mode,
              climate_mode OR isee_mode,
              max 16 (min 31 temperature) - 16,
              c2 OR vanne_horizontal_mode,
              fan_mode OR vanne_vertical_mode,
              hour now * (minute now div 10),
              (case end_time of None \<Rightarrow> 0 | Some e \<Rightarrow> hour e * (minute e div 10)),
              (case start_time of None \<Rightarrow> 0 | Some s \<Rightarrow> hour s * (minute s div 10)),
              time_control start_time end_time OR area_mode,
              0, 0, 0]
          in Inr (body @ [sum_list body mod 256]))"
  using assms
  by (simp add: send_command_frame_def template_def index_defs Let_def
      Constants_MinTemp_def Constants_MaxTemp_def Constants_MaxMask_def ac_simps)

lemma send_command_frame_None:
  assumes "climate2 climate_mode = None"
  shows "send_command_frame climate_mode temperature fan_mode vanne_vertical_mode
           vanne_horizontal_mode isee_mode area_mode start_time end_time power_mode now =
         Inl TypeError"
  using assms by (simp add: send_command_frame_def Let_def)

lemma valid_climate_mode_obtains:
  assumes "climate_mode \<in> {ClimateMode_Hot, ClimateMode_Cold, ClimateMode_Dry, ClimateMode_Auto}"
  obtains c2 where "climate2 climate_mode = Some c2"
  using assms climate2_Some_iff by blast

section \<open>The store-level body and the frame\<close>

lemma list_setitem_fresh:
  "list_setitem (length h) i v (h @ [xs]) = h @ [xs[i := v]]"
  by (simp add: list_setitem_def)

lemma send_command_store_eq:
  "send_command_store climate_mode temperature fan_mode vanne_vertical_mode
       vanne_horizontal_mode isee_mode area_mode start_time end_time power_mode now (h, sent) =
   (case send_command_frame climate_mode temperature fan_mode vanne_vertical_mode
           vanne_horizontal_mode isee_mode area_mode start_time end_time power_mode now of
      Inl e \<Rightarrow>
        (Inl e,
         h @ [template[Index_Power := power_mode,
                Index_ClimateAndISee := climate_mode OR isee_mode,
                Index_Temperature :=
                  max Constants_MinTemp (min Constants_MaxTemp temperature) - 16]],
         sent)
    | Inr frame \<Rightarrow>
        (Inr (), h @ [frame],
         sent @ [SendDataRef nec_config (length h) Constants_MaxMask True
                   Constants_NbPackets]))"
proof (cases "climate2 climate_mode")
  case None
  then show ?thesis
    by (simp add: send_command_store_def send_command_frame_def list_display_def
        list_setitem_fresh template_def Let_def)
next
  case (Some c2)
  then show ?thesis
    by (simp add: send_command_store_def send_command_frame_def list_display_def
        list_setitem_fresh template_def Let_def)
qed

section \<open>Frame length and checksum\<close>

text \<open>
  C1. For every climate mode of the enumeration, whatever the other arguments, the frame
  that \<open>__send_command\<close> builds has exactly 18 elements, and its last element (index 17,
  the CRC) is the sum of the 17 elements before it modulo 256.
\<close>

theorem frame_length_and_checksum:
  assumes "climate_mode \<in> {ClimateMode_Hot, ClimateMode_Cold, ClimateMode_Dry, ClimateMode_Auto}"
  shows "\<exists>data. send_command_frame climate_mode temperature fan_mode vanne_vertical_mode
                  vanne_horizontal_mode isee_mode area_mode start_time end_time power_mode now
                = Inr data
              \<and> length data = 18
              \<and> data ! 17 = sum_list (take 17 data) mod 256"
proof -
  from assms obtain c2 where "climate2 climate_mode = Some c2"
    by (rule valid_climate_mode_obtains)
  then show ?thesis
    by (simp add: send_command_frame_Some Let_def)
qed

theorem frame_length_and_checksum_witness:
  "ClimateMode_Cold \<in> {ClimateMode_Hot, ClimateMode_Cold, ClimateMode_Dry, ClimateMode_Auto}
   \<and> send_command_frame ClimateMode_Cold 18 FanMode_Speed3 VanneVerticalMode_Auto
        VanneHorizontalMode_NotAvailable ISeeMode_NotAvailable AreaMode_NotAvailable
        None None PowerMode_PowerOn \<lparr>hour = 14, minute = 35\<rparr>
      = Inr [0x23, 0xCB, 0x26, 0x01, 0x00, 0x20, 0x18, 2, 0x18, 0x43, 42, 0, 0, 0, 0, 0, 0, 0xD4]"
  using frame_length_and_checksum [of ClimateMode_Cold 18 FanMode_Speed3 VanneVerticalMode_Auto
        VanneHorizontalMode_NotAvailable ISeeMode_NotAvailable AreaMode_NotAvailable
        None None PowerMode_PowerOn "\<lparr>hour = 14, minute = 35\<rparr>"]
  by (simp add: send_command_frame_Some [where ?c2.0 = ClimateMode_Cold2] climate2_def
      time_control_def enum_defs Let_def)

section \<open>Temperature byte\<close>

text \<open>
  C2. For every integer temperature, the element at index 7 (Temperature) of the built
  frame is \<open>max 16 (min 31 temperature) - 16\<close>. In particular temperature 10 gives
  the same element as temperature 16, namely 0, and temperature 40 the same as
  temperature 31, namely 15. No temperature makes the construction fail: with a climate
  mode of the enumeration a frame is returned for every temperature.
\<close>

theorem temperature_byte_clamped:
  assumes "climate_mode \<in> {ClimateMode_Hot, ClimateMode_Cold, ClimateMode_Dry, ClimateMode_Auto}"
  shows "let build = (\<lambda>t. send_command_frame climate_mode t fan_mode vanne_vertical_mode
                          vanne_horizontal_mode isee_mode area_mode start_time end_time
                          power_mode now)
         in (\<exists>data. build temperature = Inr data
                \<and> data ! Index_Temperature = max 16 (min 31 temperature) - 16)
          \<and> (\<exists>low ref. build 10 = Inr low \<and> build 16 = Inr ref
                \<and> low ! Index_Temperature = ref ! Index_Temperature
                \<and> ref ! Index_Temperature = 0)
          \<and> (\<exists>high ref. build 40 = Inr high \<and> build 31 = Inr ref
                \<and> high ! Index_Temperature = ref ! Index_Temperature
                \<and> ref ! Index_Temperature = 15)"
proof -
  from assms obtain c2 where "climate2 climate_mode = Some c2"
    by (rule valid_climate_mode_obtains)
  then show ?thesis
    by (simp add: send_command_frame_Some Let_def Index_Temperature_def)
qed

theorem temperature_byte_clamped_witness:
  "ClimateMode_Hot \<in> {ClimateMode_Hot, ClimateMode_Cold, ClimateMode_Dry, ClimateMode_Auto}
   \<and> (\<exists>data. send_command_frame ClimateMode_Hot (- 3) FanMode_Auto VanneVerticalMode_Auto
          VanneHorizontalMode_NotAvailable ISeeMode_NotAvailable AreaMode_NotAvailable
          None None PowerMode_PowerOn \<lparr>hour = 9, minute = 41\<rparr> = Inr data
        \<and> data ! Index_Temperature = 0)"
  using temperature_byte_clamped [where climate_mode = ClimateMode_Hot and temperature = "- 3"
          and fan_mode = FanMode_Auto and vanne_vertical_mode = VanneVerticalMode_Auto
          and vanne_horizontal_mode = VanneHorizontalMode_NotAvailable
          and isee_mode = ISeeMode_NotAvailable and area_mode = AreaMode_NotAvailable
          and start_time = None and end_time = None and power_mode = PowerMode_PowerOn
          and now = "\<lparr>hour = 9, minute = 41\<rparr>"]
  by (simp add: Let_def)

section \<open>Secondary climate code\<close>

text \<open>
  C3. The secondary table \<open>__Hot2\<close>, \<open>__Cold2\<close>, \<open>__Dry2\<close>, \<open>__Auto2\<close> holds the same
  literals as the primary codes, so \<open>climate2\<close> returns for each of the four modes the
  primary code itself, and the element at index 8 of the frame for \<open>Hot\<close> with no
  horizontal vane is \<open>0x08\<close>, the primary code of \<open>Hot\<close>. The comments beside the four
  secondary constants give \<open>0x00\<close>, \<open>0x06\<close>, \<open>0x02\<close> and \<open>0x00\<close>.
\<close>

theorem climate2_repeats_primary_code:
  "climate2 ClimateMode_Hot = Some ClimateMode_Hot
   \<and> climate2 ClimateMode_Cold = Some ClimateMode_Cold
   \<and> climate2 ClimateMode_Dry = Some ClimateMode_Dry
   \<and> climate2 ClimateMode_Auto = Some ClimateMode_Auto
   \<and> send_command_frame ClimateMode_Hot 21 FanMode_Auto VanneVerticalMode_Auto
        VanneHorizontalMode_NotAvailable ISeeMode_NotAvailable AreaMode_NotAvailable
        None None PowerMode_PowerOn \<lparr>hour = 0, minute = 0\<rparr>
      = Inr [0x23, 0xCB, 0x26, 0x01, 0x00, 0x20, 0x08, 5, 0x08, 0xC0, 0, 0, 0, 0, 0, 0, 0, 0x0A]"
  by (simp add: send_command_frame_Some [where ?c2.0 = ClimateMode_Hot2] climate2_def
      time_control_def enum_defs Let_def)

section \<open>Clock, end time and start time\<close>

text \<open>
  C4. The element at index 10 (Clock) is \<open>hour * (minute // 10)\<close> of the time of day
  handed in, hence 0 whenever the minute is below 10; the elements at index 11
  (EndTime) and index 12 (StartTime) are 0 when the optional time is absent and
  \<open>hour * (minute // 10)\<close> of it otherwise.
\<close>

theorem clock_and_timer_bytes:
  assumes "climate_mode \<in> {ClimateMode_Hot, ClimateMode_Cold, ClimateMode_Dry, ClimateMode_Auto}"
  shows "\<exists>data. send_command_frame climate_mode temperature fan_mode vanne_vertical_mode
                  vanne_horizontal_mode isee_mode area_mode start_time end_time power_mode now
                = Inr data
           \<and> data ! Index_Clock = hour now * (minute now div 10)
           \<and> (0 \<le> minute now \<and> minute now < 10 \<longrightarrow> data ! Index_Clock = 0)
           \<and> data ! Index_EndTime =
                (case end_time of None \<Rightarrow> 0 | Some e \<Rightarrow> hour e * (minute e div 10))
           \<and> data ! Index_StartTime =
                (case start_time of None \<Rightarrow> 0 | Some s \<Rightarrow> hour s * (minute s div 10))"
proof -
  from assms obtain c2 where "climate2 climate_mode = Some c2"
    by (rule valid_climate_mode_obtains)
  then show ?thesis
    by (simp add: send_command_frame_Some Let_def Index_Clock_def Index_EndTime_def
        Index_StartTime_def)
qed

theorem clock_and_timer_bytes_witness:
  "ClimateMode_Dry \<in> {ClimateMode_Hot, ClimateMode_Cold, ClimateMode_Dry, ClimateMode_Auto}
   \<and> (0::int) \<le> 7 \<and> (7::int) < 10
   \<and> (\<exists>data. send_command_frame ClimateMode_Dry 21 FanMode_Auto VanneVerticalMode_Auto
          VanneHorizontalMode_NotAvailable ISeeMode_NotAvailable AreaMode_NotAvailable
          None (Some \<lparr>hour = 22, minute = 30\<rparr>) PowerMode_PowerOn \<lparr>hour = 13, minute = 7\<rparr>
        = Inr data
        \<and> data ! Index_Clock = 0 \<and> data ! Index_EndTime = 66 \<and> data ! Index_StartTime = 0)"
  using clock_and_timer_bytes [where climate_mode = ClimateMode_Dry and temperature = 21
          and fan_mode = FanMode_Auto and vanne_vertical_mode = VanneVerticalMode_Auto
          and vanne_horizontal_mode = VanneHorizontalMode_NotAvailable
          and isee_mode = ISeeMode_NotAvailable and area_mode = AreaMode_NotAvailable
          and start_time = None and end_time = "Some \<lparr>hour = 22, minute = 30\<rparr>"
          and power_mode = PowerMode_PowerOn and now = "\<lparr>hour = 13, minute = 7\<rparr>"]
  by simp

section \<open>Schedule mode and area\<close>

text \<open>
  C5. The presence of \<open>start_time\<close> and \<open>end_time\<close> selects the schedule-mode code: both
  present gives \<open>ControlBoth\<close>, only the end \<open>ControlEnd\<close>, only the start \<open>ControlStart\<close>,
  neither \<open>NoTimeControl\<close>. The element at index 13 (TimeControlAndArea) is that code
  OR-ed with the area-mode code. For every area mode of the enumeration the two codes
  share no bit position (their AND is 0), so the OR loses nothing: it equals their sum.
\<close>

theorem time_control_and_area_byte:
  assumes "climate_mode \<in> {ClimateMode_Hot, ClimateMode_Cold, ClimateMode_Dry, ClimateMode_Auto}"
    and "area_mode \<in> {AreaMode_NotAvailable, AreaMode_NotSet, AreaMode_Left, AreaMode_Right,
                       AreaMode_Full}"
  shows "\<exists>data. send_command_frame climate_mode temperature fan_mode vanne_vertical_mode
                  vanne_horizontal_mode isee_mode area_mode start_time end_time power_mode now
                = Inr data
           \<and> data ! Index_TimeControlAndArea = time_control start_time end_time OR area_mode
           \<and> time_control start_time end_time =
               (case (start_time, end_time) of
                  (Some s, Some e) \<Rightarrow> TimeControlMode_ControlBoth
                | (None, Some e) \<Rightarrow> TimeControlMode_ControlEnd
                | (Some s, None) \<Rightarrow> TimeControlMode_ControlStart
                | (None, None) \<Rightarrow> TimeControlMode_NoTimeControl)
           \<and> time_control start_time end_time AND area_mode = 0
           \<and> time_control start_time end_time OR area_mode
               = time_control start_time end_time + area_mode"
proof -
  from assms(1) obtain c2 where "climate2 climate_mode = Some c2"
    by (rule valid_climate_mode_obtains)
  moreover have "time_control start_time end_time = 0"
    by (simp add: time_control_def enum_defs)
  moreover have "area_mode = 0"
    using assms(2) by (auto simp: enum_defs)
  ultimately show ?thesis
    by (simp add: send_command_frame_Some Let_def Index_TimeControlAndArea_def enum_defs
        split: option.split)
qed

theorem time_control_and_area_byte_witness:
  "ClimateMode_Auto \<in> {ClimateMode_Hot, ClimateMode_Cold, ClimateMode_Dry, ClimateMode_Auto}
   \<and> AreaMode_Full \<in> {AreaMode_NotAvailable, AreaMode_NotSet, AreaMode_Left, AreaMode_Right,
                       AreaMode_Full}
   \<and> (\<exists>data. send_command_frame ClimateMode_Auto 21 FanMode_Auto VanneVerticalMode_Auto
          VanneHorizontalMode_NotAvailable ISeeMode_NotAvailable AreaMode_Full
          (Some \<lparr>hour = 6, minute = 0\<rparr>) None PowerMode_PowerOn \<lparr>hour = 13, minute = 7\<rparr>
        = Inr data
        \<and> data ! Index_TimeControlAndArea = TimeControlMode_ControlStart OR AreaMode_Full)"
  using time_control_and_area_byte [where climate_mode = ClimateMode_Auto and temperature = 21
          and fan_mode = FanMode_Auto and vanne_vertical_mode = VanneVerticalMode_Auto
          and vanne_horizontal_mode = VanneHorizontalMode_NotAvailable
          and isee_mode = ISeeMode_NotAvailable and area_mode = AreaMode_Full
          and start_time = "Some \<lparr>hour = 6, minute = 0\<rparr>" and end_time = None
          and power_mode = PowerMode_PowerOn and now = "\<lparr>hour = 13, minute = 7\<rparr>"]
  by auto

text \<open>
  C10. For every presence or absence of \<open>start_time\<close> and \<open>end_time\<close> and every area mode
  of the \<open>AreaMode\<close> enumeration, the element at index 13 (TimeControlAndArea) of the
  built frame is 0: every constant of \<open>TimeControlMode\<close> and of \<open>AreaMode\<close> is the
  literal 0.
\<close>

theorem time_control_and_area_byte_zero:
  assumes "climate_mode \<in> {ClimateMode_Hot, ClimateMode_Cold, ClimateMode_Dry, ClimateMode_Auto}"
    and "area_mode \<in> {AreaMode_NotAvailable, AreaMode_NotSet, AreaMode_Left, AreaMode_Right,
                       AreaMode_Full}"
  shows "\<exists>data. send_command_frame climate_mode temperature fan_mode vanne_vertical_mode
                  vanne_horizontal_mode isee_mode area_mode start_time end_time power_mode now
                = Inr data
           \<and> data ! Index_TimeControlAndArea = 0"
proof -
  from assms(1) obtain c2 where "climate2 climate_mode = Some c2"
    by (rule valid_climate_mode_obtains)
  moreover have "time_control start_time end_time = 0"
    by (simp add: time_control_def enum_defs)
  moreover have "area_mode = 0"
    using assms(2) by (auto simp: enum_defs)
  ultimately show ?thesis
    by (simp add: send_command_frame_Some Let_def Index_TimeControlAndArea_def)
qed

theorem time_control_and_area_byte_zero_witness:
  "ClimateMode_Cold \<in> {ClimateMode_Hot, ClimateMode_Cold, ClimateMode_Dry, ClimateMode_Auto}
   \<and> AreaMode_Right \<in> {AreaMode_NotAvailable, AreaMode_NotSet, AreaMode_Left, AreaMode_Right,
                       AreaMode_Full}
   \<and> (\<exists>data. send_command_frame ClimateMode_Cold 25 FanMode_Speed1 VanneVerticalMode_Swing
          VanneHorizontalMode_Middle ISeeMode_ISeeOn AreaMode_Right
          (Some \<lparr>hour = 6, minute = 0\<rparr>) (Some \<lparr>hour = 8, minute = 50\<rparr>) PowerMode_PowerOn
          \<lparr>hour = 23, minute = 59\<rparr>
        = Inr data
        \<and> data ! Index_TimeControlAndArea = 0)"
  using time_control_and_area_byte_zero [where climate_mode = ClimateMode_Cold
          and temperature = 25 and fan_mode = FanMode_Speed1
          and vanne_vertical_mode = VanneVerticalMode_Swing
          and vanne_horizontal_mode = VanneHorizontalMode_Middle
          and isee_mode = ISeeMode_ISeeOn and area_mode = AreaMode_Right
          and start_time = "Some \<lparr>hour = 6, minute = 0\<rparr>"
          and end_time = "Some \<lparr>hour = 8, minute = 50\<rparr>"
          and power_mode = PowerMode_PowerOn and now = "\<lparr>hour = 23, minute = 59\<rparr>"]
  by simp

section \<open>Power off\<close>

text \<open>
  C6. \<open>power_off\<close> always hands one frame to the transmitter whose element at index 5
  (Power) is the off code \<open>0x00\<close>. The other settings are fixed: climate \<open>Auto\<close>,
  temperature 21, fan \<open>Auto\<close>, vertical vane \<open>Auto\<close>, horizontal vane \<open>Swing\<close>, presence
  sensing not available, area not available, no start and no end time.
\<close>

theorem power_off_frame:
  "power_off now sent =
     (Inr (),
      sent @ [SendData nec_config
                [0x23, 0xCB, 0x26, 0x01, 0x00,
                 PowerMode_PowerOff,
                 ClimateMode_Auto OR ISeeMode_NotAvailable,
                 21 - 16,
                 ClimateMode_Auto2 OR VanneHorizontalMode_Swing,
                 FanMode_Auto OR VanneVerticalMode_Auto,
                 hour now * (minute now div 10),
                 0, 0,
                 TimeControlMode_NoTimeControl OR AreaMode_NotAvailable,
                 0, 0, 0,
                 (610 + hour now * (minute now div 10)) mod 256]
                0xFF True 2])
   \<and> PowerMode_PowerOff = 0"
  by (simp add: power_off_def send_command_priv_def
      send_command_frame_Some [where ?c2.0 = ClimateMode_Auto2] climate2_def
      time_control_def enum_defs Let_def Constants_MaxMask_def Constants_NbPackets_def)

text \<open>
  The horizontal vane of \<open>power_off\<close> is \<open>Swing\<close>, not the default \<open>NotAvailable\<close> of
  \<open>send_command\<close>: at midnight, the call that \<open>power_off\<close> hands to the transmitter is not
  the one built from the defaults of \<open>send_command\<close> with the power off.
\<close>

theorem power_off_horizontal_vane_counterexample:
  "power_off \<lparr>hour = 0, minute = 0\<rparr> [] \<noteq>
     send_command_priv ClimateMode_Auto 21 FanMode_Auto VanneVerticalMode_Auto
       VanneHorizontalMode_NotAvailable ISeeMode_NotAvailable AreaMode_NotAvailable
       None None PowerMode_PowerOff \<lparr>hour = 0, minute = 0\<rparr> []"
  by (simp add: power_off_def send_command_priv_def
      send_command_frame_Some [where ?c2.0 = ClimateMode_Auto2] climate2_def
      time_control_def enum_defs Let_def)

section \<open>Unmapped climate mode\<close>

text \<open>
  C8. For every climate mode that is none of the four codes \<open>Hot\<close>, \<open>Cold\<close>, \<open>Dry\<close>,
  \<open>Auto\<close>, the construction of the frame raises \<open>TypeError\<close> and the transmitter receives
  nothing; for each of the four codes the construction returns a frame, which is handed
  to the transmitter.
\<close>

theorem unmapped_climate_mode_fails_fast:
  "(climate_mode \<notin> {ClimateMode_Hot, ClimateMode_Cold, ClimateMode_Dry, ClimateMode_Auto} \<longrightarrow>
      send_command_frame climate_mode temperature fan_mode vanne_vertical_mode
        vanne_horizontal_mode isee_mode area_mode start_time end_time power_mode now
        = Inl TypeError
      \<and> send_command_priv climate_mode temperature fan_mode vanne_vertical_mode
        vanne_horizontal_mode isee_mode area_mode start_time end_time power_mode now sent
        = (Inl TypeError, sent))
   \<and> (climate_mode \<in> {ClimateMode_Hot, ClimateMode_Cold, ClimateMode_Dry, ClimateMode_Auto} \<longrightarrow>
      (\<exists>data. send_command_frame climate_mode temperature fan_mode vanne_vertical_mode
          vanne_horizontal_mode isee_mode area_mode start_time end_time power_mode now
          = Inr data
        \<and> send_command_priv climate_mode temperature fan_mode vanne_vertical_mode
          vanne_horizontal_mode isee_mode area_mode start_time end_time power_mode now sent
          = (Inr (), sent @ [SendData nec_config data Constants_MaxMask True
                               Constants_NbPackets])))"
proof (intro conjI impI)
  assume "climate_mode \<notin> {ClimateMode_Hot, ClimateMode_Cold, ClimateMode_Dry, ClimateMode_Auto}"
  then have "climate2 climate_mode = None"
    using climate2_Some_iff [of climate_mode] by (cases "climate2 climate_mode") auto
  then show "send_command_frame climate_mode temperature fan_mode vanne_vertical_mode
        vanne_horizontal_mode isee_mode area_mode start_time end_time power_mode now
        = Inl TypeError"
    by (rule send_command_frame_None)
  then show "send_command_priv climate_mode temperature fan_mode vanne_vertical_mode
        vanne_horizontal_mode isee_mode area_mode start_time end_time power_mode now sent
        = (Inl TypeError, sent)"
    by (simp add: send_command_priv_def)
next
  assume "climate_mode \<in> {ClimateMode_Hot, ClimateMode_Cold, ClimateMode_Dry, ClimateMode_Auto}"
  then obtain c2 where "climate2 climate_mode = Some c2"
    by (rule valid_climate_mode_obtains)
  then show "\<exists>data. send_command_frame climate_mode temperature fan_mode vanne_vertical_mode
          vanne_horizontal_mode isee_mode area_mode start_time end_time power_mode now
          = Inr data
        \<and> send_command_priv climate_mode temperature fan_mode vanne_vertical_mode
          vanne_horizontal_mode isee_mode area_mode start_time end_time power_mode now sent
          = (Inr (), sent @ [SendData nec_config data Constants_MaxMask True
                               Constants_NbPackets])"
    by (simp add: send_command_priv_def send_command_frame_Some Let_def)
qed

theorem unmapped_climate_mode_fails_fast_witness:
  "(0b00000110::int) \<notin> {ClimateMode_Hot, ClimateMode_Cold, ClimateMode_Dry, ClimateMode_Auto}
   \<and> send_command_priv 0b00000110 21 FanMode_Auto VanneVerticalMode_Auto
        VanneHorizontalMode_NotAvailable ISeeMode_NotAvailable AreaMode_NotAvailable
        None None PowerMode_PowerOn \<lparr>hour = 9, minute = 41\<rparr> [] = (Inl TypeError, [])
   \<and> ClimateMode_Dry \<in> {ClimateMode_Hot, ClimateMode_Cold, ClimateMode_Dry, ClimateMode_Auto}
   \<and> (\<exists>data. send_command_priv ClimateMode_Dry 21 FanMode_Auto VanneVerticalMode_Auto
        VanneHorizontalMode_NotAvailable ISeeMode_NotAvailable AreaMode_NotAvailable
        None None PowerMode_PowerOn \<lparr>hour = 9, minute = 41\<rparr> []
        = (Inr (), [SendData nec_config data Constants_MaxMask True Constants_NbPackets]))"
  using unmapped_climate_mode_fails_fast [where climate_mode = "0b00000110" and temperature = 21
          and fan_mode = FanMode_Auto and vanne_vertical_mode = VanneVerticalMode_Auto
          and vanne_horizontal_mode = VanneHorizontalMode_NotAvailable
          and isee_mode = ISeeMode_NotAvailable and area_mode = AreaMode_NotAvailable
          and start_time = None and end_time = None and power_mode = PowerMode_PowerOn
          and now = "\<lparr>hour = 9, minute = 41\<rparr>" and sent = "[]"]
        unmapped_climate_mode_fails_fast [where climate_mode = ClimateMode_Dry and temperature = 21
          and fan_mode = FanMode_Auto and vanne_vertical_mode = VanneVerticalMode_Auto
          and vanne_horizontal_mode = VanneHorizontalMode_NotAvailable
          and isee_mode = ISeeMode_NotAvailable and area_mode = AreaMode_NotAvailable
          and start_time = None and end_time = None and power_mode = PowerMode_PowerOn
          and now = "\<lparr>hour = 9, minute = 41\<rparr>" and sent = "[]"]
  by (auto simp: enum_defs)

section \<open>A fresh frame for every invocation\<close>

text \<open>
  C9. For fixed arguments and a fixed time of day, constructing the frame twice yields
  byte-identical frames, from any store and any history of the transmitter. Each
  invocation creates one new list object and writes to that object only: every object
  that existed before, the frame of an earlier invocation included, is left as it was.
  The content of the new object is the frame determined by the arguments and the time of
  day alone. After two invocations in a row the transmitter holds two different
  references, and the objects behind them are equal element by element.
\<close>

theorem fresh_frame_per_invocation:
  "(case send_command_store climate_mode temperature fan_mode vanne_vertical_mode
           vanne_horizontal_mode isee_mode area_mode start_time end_time power_mode now
           (h, sent) of
      (r1, h1, sent1) \<Rightarrow>
   (case send_command_store climate_mode temperature fan_mode vanne_vertical_mode
           vanne_horizontal_mode isee_mode area_mode start_time end_time power_mode now
           (h1, sent1) of
      (r2, h2, sent2) \<Rightarrow>
        length h1 = Suc (length h) \<and> take (length h) h1 = h
      \<and> length h2 = Suc (length h1) \<and> take (length h1) h2 = h1
      \<and> r2 = r1
      \<and> h2 ! length h1 = h2 ! length h
      \<and> (case send_command_frame climate_mode temperature fan_mode vanne_vertical_mode
                 vanne_horizontal_mode isee_mode area_mode start_time end_time power_mode now of
            Inl e \<Rightarrow> r1 = Inl e \<and> sent2 = sent
          | Inr frame \<Rightarrow>
              r1 = Inr () \<and> h1 ! length h = frame \<and> h2 ! length h = frame
            \<and> h2 ! length h1 = frame
            \<and> sent2 = sent @ [SendDataRef nec_config (length h) Constants_MaxMask True
                                Constants_NbPackets,
                              SendDataRef nec_config (length h1) Constants_MaxMask True
                                Constants_NbPackets])))"
  by (cases "send_command_frame climate_mode temperature fan_mode vanne_vertical_mode
           vanne_horizontal_mode isee_mode area_mode start_time end_time power_mode now")
     (simp_all add: send_command_store_eq nth_append)

end
